theory Spec2Isabelle
  imports Main
begin

section \<open>Python values, exceptions and built-in operations\<close>

text \<open>
  The playlist module is dynamically typed. The values that flow through the metadata
  dictionaries of the downloader are modelled by \<open>pyval\<close>; Python's truth test and the
  \<open>or\<close> operator are written out. Every exception the module can raise or receive is a
  constructor of \<open>error\<close>, and a call that can raise returns \<open>error + 'a\<close>.
\<close>

datatype pyval = PNone | PBool bool | PInt int | PStr string

fun truthy :: "pyval \<Rightarrow> bool" where
  "truthy PNone = False"
| "truthy (PBool b) = b"
| "truthy (PInt n) = (n \<noteq> 0)"
| "truthy (PStr s) = (s \<noteq> [])"

definition py_or :: "pyval \<Rightarrow> pyval \<Rightarrow> pyval" where
  "py_or a b = (if truthy a then a else b)"

text \<open>
  \<open>ExtractionError\<close> and \<open>WrongEntryTypeError\<close> are the two exception classes the module
  imports; the others are Python's own. \<open>OSError\<close> stands for every failure of the
  filesystem, \<open>ClientError\<close> for every failure of a collaborator that goes over the network
  (the HEAD probe and its timeout, the downloader). Each carries the text \<open>str\<close> gives.
\<close>

datatype error =
    ExtractionError string
  | WrongEntryTypeError string bool pyval
  | KeyError string
  | ValueError string
  | TypeError string
  | AttributeError string
  | IndexError string
  | OSError string
  | ClientError string

fun exc_str :: "error \<Rightarrow> string" where
  "exc_str (ExtractionError m) = m"
| "exc_str (WrongEntryTypeError m b u) = m"
| "exc_str (KeyError k) = [CHR 0x27] @ k @ [CHR 0x27]"
| "exc_str (ValueError m) = m"
| "exc_str (TypeError m) = m"
| "exc_str (AttributeError m) = m"
| "exc_str (IndexError m) = m"
| "exc_str (OSError m) = m"
| "exc_str (ClientError m) = m"

text \<open>Dictionaries with string keys are association lists; \<open>k in d\<close> is \<open>has_key\<close>.\<close>

definition has_key :: "string \<Rightarrow> (string \<times> 'v) list \<Rightarrow> bool" where
  "has_key k d = (k \<in> set (map fst d))"

fun dict_set :: "string \<Rightarrow> 'v \<Rightarrow> (string \<times> 'v) list \<Rightarrow> (string \<times> 'v) list" where
  "dict_set k v [] = [(k, v)]"
| "dict_set k v ((k', v') # d) = (if k' = k then (k, v) # d else (k', v') # dict_set k v d)"

text \<open>
  The string operations the module uses, for a one-character separator:
  \<open>s.split(c)\<close>, \<open>s.rsplit(c, 1)\<close>, \<open>sep.join(parts)\<close>, \<open>s.startswith(p)\<close>, \<open>sub in s\<close> and
  \<open>list.index\<close>. \<open>py_split\<close> never gives the empty list, so taking its first part is safe.
\<close>

fun py_split :: "char \<Rightarrow> string \<Rightarrow> string list" where
  "py_split c [] = [[]]"
| "py_split c (x # xs) =
     (if x = c then [] # py_split c xs
      else (case py_split c xs of [] \<Rightarrow> [[x]] | y # ys \<Rightarrow> (x # y) # ys))"

definition py_rsplit1 :: "char \<Rightarrow> string \<Rightarrow> string list" where
  "py_rsplit1 c s =
     (if c \<in> set s
      then [rev (tl (dropWhile (\<lambda>x. x \<noteq> c) (rev s))), rev (takeWhile (\<lambda>x. x \<noteq> c) (rev s))]
      else [s])"

fun py_join :: "string \<Rightarrow> string list \<Rightarrow> string" where
  "py_join sep [] = []"
| "py_join sep [x] = x"
| "py_join sep (x # y # ys) = x @ sep @ py_join sep (y # ys)"

definition startswith :: "string \<Rightarrow> string \<Rightarrow> bool" where
  "startswith s p = (take (length p) s = p)"

fun contains :: "string \<Rightarrow> string \<Rightarrow> bool" where
  "contains [] sub = (sub = [])"
| "contains (x # xs) sub = (startswith (x # xs) sub \<or> contains xs sub)"

fun index_of :: "'a \<Rightarrow> 'a list \<Rightarrow> nat" where
  "index_of x [] = 0"
| "index_of x (y # ys) = (if y = x then 0 else Suc (index_of x ys))"

text \<open>
  \<open>int(s)\<close> for a string of ASCII characters: surrounding whitespace is dropped, one sign
  is allowed, and the digits may be grouped by single underscores. Anything else raises
  \<open>ValueError\<close>, which is \<open>None\<close> here.
\<close>

definition is_space :: "char \<Rightarrow> bool" where
  "is_space c = (of_char c \<in> set [9, 10, 11, 12, 13, 28, 29, 30, 31, 32 :: nat])"

definition is_digit :: "char \<Rightarrow> bool" where
  "is_digit c = (48 \<le> (of_char c :: nat) \<and> (of_char c :: nat) \<le> 57)"

definition py_strip :: "string \<Rightarrow> string" where
  "py_strip s = rev (dropWhile is_space (rev (dropWhile is_space s)))"

definition digits_val :: "string \<Rightarrow> nat" where
  "digits_val ds = foldl (\<lambda>n c. 10 * n + (of_char c - 48)) 0 ds"

definition py_int_unsigned :: "string \<Rightarrow> int option" where
  "py_int_unsigned body =
     (let groups = py_split CHR ''_'' body in
      if list_all (\<lambda>g. g \<noteq> [] \<and> list_all is_digit g) groups
      then Some (int (digits_val (concat groups)))
      else None)"

definition py_int :: "string \<Rightarrow> int option" where
  "py_int s =
     (case py_strip s of
        [] \<Rightarrow> None
      | c # cs \<Rightarrow>
          if c = CHR ''-'' then map_option uminus (py_int_unsigned cs)
          else if c = CHR ''+'' then py_int_unsigned cs
          else py_int_unsigned (c # cs))"

section \<open>The filesystem\<close>

text \<open>
  The download folder is shared by all entries. The filesystem is a list of directories
  and an association list from path to content; \<open>os.listdir\<close> gives the names in the order
  of that list. Paths are POSIX paths, compared as the strings the code builds, and a
  directory lists its regular files only (the download folder has no subdirectories).
  An operation raises \<open>OSError\<close> where the path it needs is missing.
\<close>

record filesys =
  dirs :: "string list"
  files :: "(string \<times> string) list"

definition os_path_basename :: "string \<Rightarrow> string" where
  "os_path_basename p = rev (takeWhile (\<lambda>x. x \<noteq> CHR ''/'') (rev p))"

definition os_path_join :: "string \<Rightarrow> string \<Rightarrow> string" where
  "os_path_join a b =
     (if startswith b ''/'' then b
      else if a = [] \<or> last a = CHR ''/'' then a @ b
      else a @ ''/'' @ b)"

definition os_path_exists :: "filesys \<Rightarrow> string \<Rightarrow> bool" where
  "os_path_exists fs p = (p \<in> set (dirs fs) \<or> has_key p (files fs))"

definition os_path_isfile :: "filesys \<Rightarrow> string \<Rightarrow> bool" where
  "os_path_isfile fs p = has_key p (files fs)"

definition os_makedirs :: "string \<Rightarrow> filesys \<Rightarrow> filesys" where
  "os_makedirs p fs = fs\<lparr> dirs := p # dirs fs \<rparr>"

definition child_name :: "string \<Rightarrow> string \<Rightarrow> string option" where
  "child_name d p =
     (let pre = (if d = [] \<or> last d = CHR ''/'' then d else d @ ''/'');
          name = drop (length pre) p
      in if startswith p pre \<and> name \<noteq> [] \<and> CHR ''/'' \<notin> set name then Some name else None)"

definition os_listdir :: "filesys \<Rightarrow> string \<Rightarrow> error + string list" where
  "os_listdir fs d =
     (if d \<in> set (dirs fs) then Inr (List.map_filter (\<lambda>(p, c). child_name d p) (files fs))
      else Inl (OSError ''listdir''))"

definition os_path_getsize :: "filesys \<Rightarrow> string \<Rightarrow> error + nat" where
  "os_path_getsize fs p =
     (case map_of (files fs) p of None \<Rightarrow> Inl (OSError ''getsize'') | Some c \<Rightarrow> Inr (length c))"

definition os_unlink :: "string \<Rightarrow> filesys \<Rightarrow> error + filesys" where
  "os_unlink p fs =
     (if has_key p (files fs) then Inr (fs\<lparr> files := filter (\<lambda>(q, c). q \<noteq> p) (files fs) \<rparr>)
      else Inl (OSError ''unlink''))"

definition os_rename :: "string \<Rightarrow> string \<Rightarrow> filesys \<Rightarrow> error + filesys" where
  "os_rename src dst fs =
     (case map_of (files fs) src of
        None \<Rightarrow> Inl (OSError ''rename'')
      | Some c \<Rightarrow>
          Inr (fs\<lparr> files := (dst, c) # filter (\<lambda>(q, c'). q \<noteq> src \<and> q \<noteq> dst) (files fs) \<rparr>))"

text \<open>
  \<open>md5sum(filename, limit)\<close>: the digest of the file's content, cut to
  \<open>hexdigest()[-limit:]\<close> (the whole digest when \<open>limit\<close> is 0). The digest function of the
  hash library is a parameter.
\<close>

definition md5sum :: "(string \<Rightarrow> string) \<Rightarrow> filesys \<Rightarrow> string \<Rightarrow> nat \<Rightarrow> error + string" where
  "md5sum hexdigest fs fname limit =
     (case map_of (files fs) fname of
        None \<Rightarrow> Inl (OSError ''open'')
      | Some c \<Rightarrow>
          Inr (let d = hexdigest c in if limit = 0 then d else drop (length d - limit) d))"

section \<open>Playlist entries and their persisted snapshots\<close>

text \<open>
  The metadata of an entry holds live objects of the chat library: a channel (with the
  member directory of its server), a member, or, where \<open>from_json\<close> falls back on it, a
  plain string; \<open>get_member\<close> may also give \<open>None\<close>.
\<close>

record member =
  m_id :: string
  m_name :: string

record channel =
  ch_id :: string
  ch_name :: string
  ch_server_members :: "(string \<times> member) list"

datatype meta_obj = ChannelObj channel | MemberObj member | StrObj string | NoneObj

record entry =
  url :: string
  title :: pyval
  duration :: pyval
  expected_filename :: "string option"
  meta :: "(string \<times> meta_obj) list"
  filename :: "string option"
  is_downloading :: bool
  waiting_futures :: "nat list"
  download_folder :: string

text \<open>
  \<open>PlaylistEntry.__init__\<close>: the fifth positional parameter is \<open>expected_filename\<close>; the
  resolved \<open>filename\<close> always starts as \<open>None\<close>. The first argument here is the download
  folder the constructor reads from the playlist's downloader.
\<close>

definition PlaylistEntry_init ::
  "string \<Rightarrow> string \<Rightarrow> pyval \<Rightarrow> pyval \<Rightarrow> string option \<Rightarrow> (string \<times> meta_obj) list \<Rightarrow> entry" where
  "PlaylistEntry_init folder u t d expected m =
     \<lparr> url = u, title = t, duration = d, expected_filename = expected, meta = m,
       filename = None, is_downloading = False, waiting_futures = [],
       download_folder = folder \<rparr>"

text \<open>The property \<open>is_downloaded\<close>; \<open>bool(self.filename)\<close> is false for \<open>None\<close> and for \<open>''\<close>.\<close>

definition is_downloaded :: "entry \<Rightarrow> bool" where
  "is_downloaded e =
     (if is_downloading e then False
      else (case filename e of None \<Rightarrow> False | Some f \<Rightarrow> f \<noteq> []))"

text \<open>
  The persisted snapshot, as \<open>json.loads\<close> gives it and \<open>json.dumps\<close> takes it: the record
  \<open>{version, url, title, duration, downloaded, filename, meta: {key: {type, id, name}}}\<close>.
\<close>

record meta_rec =
  r_type :: string
  r_id :: string
  r_name :: string

record snapshot =
  version :: int
  s_url :: string
  s_title :: pyval
  s_duration :: pyval
  downloaded :: bool
  s_filename :: "string option"
  s_meta :: "(string \<times> meta_rec) list"

text \<open>
  \<open>PlaylistEntry.from_json\<close>. \<open>get_channel\<close> is the bot's channel directory. The channel
  is stored when the snapshot has one (the live channel, or its saved name when the
  directory no longer knows it); the author is looked up through \<open>meta['channel'].server\<close>,
  which raises \<open>KeyError\<close> when no channel was stored and \<open>AttributeError\<close> when the stored
  value is the name.
\<close>

definition from_json ::
  "string \<Rightarrow> (string \<Rightarrow> channel option) \<Rightarrow> snapshot \<Rightarrow> error + entry" where
  "from_json folder get_channel data =
     (let u = s_url data;
          t = s_title data;
          d = s_duration data;
          fname = (if downloaded data then s_filename data else None);
          meta0 = [];
          meta1 = (case map_of (s_meta data) ''channel'' of
                     None \<Rightarrow> meta0
                   | Some r \<Rightarrow>
                       dict_set ''channel''
                         (case get_channel (r_id r) of
                            Some ch \<Rightarrow> ChannelObj ch
                          | None \<Rightarrow> StrObj (r_name r)) meta0)
      in case map_of (s_meta data) ''author'' of
           None \<Rightarrow> Inr (PlaylistEntry_init folder u t d fname meta1)
         | Some a \<Rightarrow>
             (case map_of meta1 ''channel'' of
                None \<Rightarrow> Inl (KeyError ''channel'')
              | Some (ChannelObj ch) \<Rightarrow>
                  Inr (PlaylistEntry_init folder u t d fname
                         (dict_set ''author''
                            (case map_of (ch_server_members ch) (r_id a) of
                               Some m \<Rightarrow> MemberObj m
                             | None \<Rightarrow> NoneObj) meta1))
              | Some _ \<Rightarrow> Inl (AttributeError ''server'')))"

text \<open>
  \<open>PlaylistEntry.to_json\<close>. The dictionary comprehension over \<open>self.meta\<close> reads
  \<open>__class__.__name__\<close>, \<open>id\<close> and \<open>name\<close> of every value; a string or \<open>None\<close> has no
  \<open>id\<close>.
\<close>

fun meta_obj_to_json :: "meta_obj \<Rightarrow> error + meta_rec" where
  "meta_obj_to_json (ChannelObj c) =
     Inr \<lparr> r_type = ''Channel'', r_id = ch_id c, r_name = ch_name c \<rparr>"
| "meta_obj_to_json (MemberObj m) =
     Inr \<lparr> r_type = ''Member'', r_id = m_id m, r_name = m_name m \<rparr>"
| "meta_obj_to_json (StrObj s) = Inl (AttributeError ''id'')"
| "meta_obj_to_json NoneObj = Inl (AttributeError ''id'')"

fun meta_to_json :: "(string \<times> meta_obj) list \<Rightarrow> error + (string \<times> meta_rec) list" where
  "meta_to_json [] = Inr []"
| "meta_to_json ((k, v) # m) =
     (case meta_obj_to_json v of
        Inl x \<Rightarrow> Inl x
      | Inr r \<Rightarrow> (case meta_to_json m of Inl x \<Rightarrow> Inl x | Inr rs \<Rightarrow> Inr ((k, r) # rs)))"

definition to_json :: "entry \<Rightarrow> error + snapshot" where
  "to_json e =
     (case meta_to_json (meta e) of
        Inl x \<Rightarrow> Inl x
      | Inr m \<Rightarrow>
          Inr \<lparr> version = 1, s_url = url e, s_title = title e, s_duration = duration e,
                downloaded = is_downloaded e, s_filename = filename e, s_meta = m \<rparr>)"

section \<open>The download routine\<close>

text \<open>
  \<open>_download\<close> is a coroutine: it runs until it awaits a collaborator (the HEAD probe of
  \<open>get_header\<close>, or the downloader's \<open>extract_info(download=True)\<close> inside
  \<open>_really_download\<close>), is suspended there, and is resumed with what the collaborator gave.
  Each stretch between two awaits is one function on the entry and the filesystem; its
  \<open>outcome\<close> says how the stretch ends: the body has finished (\<open>Return\<close>), an exception
  reaches the handler of \<open>_download\<close> (\<open>Raise\<close>), or the run is suspended at an await
  (\<open>Await\<close>, with the locals the run keeps).
\<close>

type_synonym info = "(string \<times> pyval) list"

datatype point = AwaitHeader "string list" string | AwaitExtract bool

datatype outcome = Return | Raise error | Await point

text \<open>
  The collaborators of the downloader that are pure functions: \<open>ytdl.prepare_filename\<close>,
  which fills the output template from a metadata dictionary, and the digest of the hash
  library.
\<close>

record env =
  prepare_filename :: "info \<Rightarrow> string"
  md5_hexdigest :: "string \<Rightarrow> string"

text \<open>
  \<open>_download\<close> from the line after \<open>self._is_downloading = True\<close> to its first await (or to
  its end, when a cached file of a named source is found).
\<close>

definition download_begin :: "entry \<Rightarrow> filesys \<Rightarrow> outcome \<times> entry \<times> filesys" where
  "download_begin e fs0 =
     (let folder = download_folder e;
          fs = (if os_path_exists fs0 folder then fs0 else os_makedirs folder fs0)
      in case expected_filename e of
           None \<Rightarrow> (Raise (TypeError ''basename''), e, fs)
         | Some ef \<Rightarrow>
             let extractor = hd (py_split CHR ''-'' (os_path_basename ef)) in
             if extractor = ''generic'' then
               (case os_listdir fs folder of
                  Inl x \<Rightarrow> (Raise x, e, fs)
                | Inr ldir \<Rightarrow>
                    let flistdir = map (\<lambda>f. hd (py_rsplit1 CHR ''-'' f)) ldir in
                    (case py_rsplit1 CHR ''.'' (os_path_basename ef) of
                       [expected_fname_noex, fname_ex] \<Rightarrow>
                         if expected_fname_noex \<in> set flistdir
                         then (Await (AwaitHeader flistdir expected_fname_noex), e, fs)
                         else (Await (AwaitExtract True), e, fs)
                     | _ \<Rightarrow> (Raise (ValueError ''unpack''), e, fs)))
             else
               (case os_listdir fs folder of
                  Inl x \<Rightarrow> (Raise x, e, fs)
                | Inr ldir \<Rightarrow>
                    let flistdir = map (\<lambda>f. hd (py_rsplit1 CHR ''.'' f)) ldir;
                        expected_fname_base = os_path_basename ef;
                        expected_fname_noex = hd (py_rsplit1 CHR ''.'' expected_fname_base)
                    in if expected_fname_base \<in> set ldir
                       then (Return,
                             e\<lparr> filename := Some (os_path_join folder expected_fname_base) \<rparr>, fs)
                       else if expected_fname_noex \<in> set flistdir
                       then (Return,
                             e\<lparr> filename :=
                                  Some (os_path_join folder
                                          (ldir ! index_of expected_fname_noex flistdir)) \<rparr>, fs)
                       else (Await (AwaitExtract False), e, fs)))"

text \<open>
  The remote size of the generic-source path: \<open>int(await get_header(...))\<close> inside
  \<open>try\<close>, with 0 when the probe raises, returns \<open>None\<close> or returns what \<open>int\<close> does not
  take. \<open>resp\<close> is what \<open>get_header\<close> returned or raised.
\<close>

definition remote_size :: "error + string option \<Rightarrow> int" where
  "remote_size resp =
     (case resp of
        Inl x \<Rightarrow> 0
      | Inr None \<Rightarrow> 0
      | Inr (Some s) \<Rightarrow> (case py_int s of None \<Rightarrow> 0 | Some n \<Rightarrow> n))"

text \<open>
  The generic-source path after the HEAD probe for \<open>CONTENT-LENGTH\<close>. The folder is listed
  again; the saved \<open>flistdir\<close> gives the index of the local file.
\<close>

definition download_after_header ::
  "string list \<Rightarrow> string \<Rightarrow> error + string option \<Rightarrow> entry \<Rightarrow> filesys
     \<Rightarrow> outcome \<times> entry \<times> filesys" where
  "download_after_header flistdir expected_fname_noex resp e fs =
     (let rsize = remote_size resp
      in case os_listdir fs (download_folder e) of
           Inl x \<Rightarrow> (Raise x, e, fs)
         | Inr ldir \<Rightarrow>
             let i = index_of expected_fname_noex flistdir in
             if i < length ldir then
               (let lfile = os_path_join (download_folder e) (ldir ! i) in
                case os_path_getsize fs lfile of
                  Inl x \<Rightarrow> (Raise x, e, fs)
                | Inr lsize \<Rightarrow>
                    if int lsize \<noteq> rsize then (Await (AwaitExtract True), e, fs)
                    else (Return, e\<lparr> filename := Some lfile \<rparr>, fs))
             else (Raise (IndexError ''list index out of range''), e, fs))"

text \<open>
  \<open>_really_download\<close> after its await: \<open>resp\<close> is what \<open>extract_info(download=True)\<close>
  returned or raised. The resolved name is assigned before the file is hashed and moved.
\<close>

definition really_download ::
  "env \<Rightarrow> bool \<Rightarrow> error + info option \<Rightarrow> entry \<Rightarrow> filesys \<Rightarrow> outcome \<times> entry \<times> filesys" where
  "really_download ev hash resp e fs =
     (case resp of
        Inl x \<Rightarrow> (Raise (ExtractionError (exc_str x)), e, fs)
      | Inr None \<Rightarrow> (Raise (ExtractionError ''ytdl broke and hell if I know why''), e, fs)
      | Inr (Some result) \<Rightarrow>
          let unhashed_fname = prepare_filename ev result;
              e1 = e\<lparr> filename := Some unhashed_fname \<rparr>
          in if hash then
               (case md5sum (md5_hexdigest ev) fs unhashed_fname 8 of
                  Inl x \<Rightarrow> (Raise x, e1, fs)
                | Inr h \<Rightarrow>
                    let fname = py_join (py_join h [''-'', ''.''])
                                  (py_rsplit1 CHR ''.'' unhashed_fname);
                        e2 = e1\<lparr> filename := Some fname \<rparr>
                    in if os_path_isfile fs fname then
                         (case os_unlink unhashed_fname fs of
                            Inl x \<Rightarrow> (Raise x, e2, fs)
                          | Inr fs' \<Rightarrow> (Return, e2, fs'))
                       else
                         (case os_rename unhashed_fname fname fs of
                            Inl x \<Rightarrow> (Raise x, e2, fs)
                          | Inr fs' \<Rightarrow> (Return, e2, fs')))
             else (Return, e1, fs))"

section \<open>Waiters and the event loop\<close>

text \<open>
  A waiter is an \<open>asyncio.Future\<close>: pending, cancelled, or done with the entry or with an
  exception. Entries and futures are objects with identity: the world keeps a heap of
  entries and a store of futures, both addressed by numbers. The loop's queue of ready
  callbacks holds the download tasks \<open>ensure_future\<close> has scheduled and the runs whose
  await has completed; a suspended run waits in \<open>suspended\<close>. The playlist's deque is
  \<open>queue\<close>, and \<open>emitted\<close> logs the events given to the emitter.

  Three fields are history variables, written and never read by the code:
  \<open>ready_requests\<close> logs the calls of \<open>get_ready_future\<close>, \<open>download_runs\<close> the runs of
  \<open>_download\<close> that passed its guard, and \<open>download_calls\<close> the calls of
  \<open>extract_info(download=True)\<close>, each by entry.
\<close>

datatype fut = Pending | Cancelled | Result nat | Exception error

datatype task =
    Fresh nat
  | ResumeHeader nat "string list" string "error + string option"
  | ResumeExtract nat bool "error + info option"

record world =
  heap :: "nat \<Rightarrow> entry"
  next_entry :: nat
  queue :: "nat list"
  futs :: "nat \<Rightarrow> fut"
  next_fut :: nat
  ready :: "task list"
  suspended :: "(nat \<times> point) list"
  fsys :: filesys
  emitted :: "(string \<times> nat) list"
  ready_requests :: "nat list"
  download_runs :: "nat list"
  download_calls :: "nat list"

text \<open>
  \<open>future.set_result\<close> and \<open>future.set_exception\<close> raise \<open>InvalidStateError\<close> on a future
  that is already done; \<open>_for_each_future\<close> absorbs that, and skips a cancelled future.
\<close>

definition settle :: "fut \<Rightarrow> fut \<Rightarrow> fut" where
  "settle v f = (if f = Pending then v else f)"

definition for_each_future :: "fut \<Rightarrow> nat \<Rightarrow> world \<Rightarrow> world" where
  "for_each_future v eid w =
     w\<lparr> heap := (heap w)(eid := (heap w eid)\<lparr> waiting_futures := [] \<rparr>),
        futs := fold (\<lambda>f fs. fs(f := settle v (fs f))) (waiting_futures (heap w eid)) (futs w) \<rparr>"

text \<open>
  \<open>get_ready_future\<close>: a new future, done at once when the entry is downloaded; otherwise a
  download task is scheduled and the future joins the waiters.
\<close>

definition get_ready_future :: "nat \<Rightarrow> world \<Rightarrow> world \<times> nat" where
  "get_ready_future eid w =
     (let future = next_fut w;
          w1 = w\<lparr> next_fut := Suc future, ready_requests := ready_requests w @ [eid] \<rparr>
      in if is_downloaded (heap w eid)
         then (w1\<lparr> futs := (futs w)(future := Result eid) \<rparr>, future)
         else (w1\<lparr> futs := (futs w)(future := Pending),
                   ready := ready w @ [Fresh eid],
                   heap := (heap w)(eid := (heap w eid)
                             \<lparr> waiting_futures := waiting_futures (heap w eid) @ [future] \<rparr>) \<rparr>,
               future))"

text \<open>
  The end of a stretch of \<open>_download\<close>. At an await the run is suspended; entering
  \<open>_really_download\<close> is the call of the downloader. Otherwise the waiters are resolved
  (with the entry, or with the exception) and the \<open>finally\<close> clause clears the flag.
\<close>

definition finish :: "nat \<Rightarrow> outcome \<times> entry \<times> filesys \<Rightarrow> world \<Rightarrow> world" where
  "finish eid r w =
     (case r of (oc, e, fs) \<Rightarrow>
        let w1 = w\<lparr> heap := (heap w)(eid := e), fsys := fs \<rparr> in
        case oc of
          Await p \<Rightarrow>
            w1\<lparr> suspended := suspended w @ [(eid, p)],
                download_calls :=
                  (case p of AwaitExtract h \<Rightarrow> download_calls w @ [eid]
                           | AwaitHeader fl n \<Rightarrow> download_calls w) \<rparr>
        | Return \<Rightarrow>
            (let w2 = for_each_future (Result eid) eid w1
             in w2\<lparr> heap := (heap w2)(eid := (heap w2 eid)\<lparr> is_downloading := False \<rparr>) \<rparr>)
        | Raise x \<Rightarrow>
            (let w2 = for_each_future (Exception x) eid w1
             in w2\<lparr> heap := (heap w2)(eid := (heap w2 eid)\<lparr> is_downloading := False \<rparr>) \<rparr>))"

text \<open>
  One callback of the loop: a fresh \<open>_download\<close> (which returns at once when the flag is
  set, and sets it otherwise), or the resumption of a suspended run.
\<close>

definition run_task :: "env \<Rightarrow> task \<Rightarrow> world \<Rightarrow> world" where
  "run_task ev t w =
     (case t of
        Fresh eid \<Rightarrow>
          if is_downloading (heap w eid) then w
          else finish eid (download_begin ((heap w eid)\<lparr> is_downloading := True \<rparr>) (fsys w))
                 (w\<lparr> download_runs := download_runs w @ [eid] \<rparr>)
      | ResumeHeader eid flistdir noex resp \<Rightarrow>
          finish eid (download_after_header flistdir noex resp (heap w eid) (fsys w)) w
      | ResumeExtract eid hash resp \<Rightarrow>
          finish eid (really_download ev hash resp (heap w eid) (fsys w)) w)"

text \<open>
  What can happen on the loop: a caller requests the readiness of an entry; the loop runs
  its next ready callback; the probe or the download of a suspended run completes, which
  makes the run ready again; a caller cancels its waiter; and a file appears in the
  filesystem (the downloader writes what it downloads).
\<close>

datatype action =
    Request nat
  | RunNext
  | HeaderDone nat "error + string option"
  | ExtractDone nat "error + info option"
  | CancelWaiter nat
  | WriteFile string string

definition remove_nth :: "nat \<Rightarrow> 'a list \<Rightarrow> 'a list" where
  "remove_nth k xs = take k xs @ drop (Suc k) xs"

definition write_file :: "string \<Rightarrow> string \<Rightarrow> filesys \<Rightarrow> filesys" where
  "write_file p c fs = fs\<lparr> files := (p, c) # filter (\<lambda>(q, c'). q \<noteq> p) (files fs) \<rparr>"

fun step :: "env \<Rightarrow> action \<Rightarrow> world \<Rightarrow> world" where
  "step ev (Request eid) w = fst (get_ready_future eid w)"
| "step ev RunNext w =
     (case ready w of [] \<Rightarrow> w | t # ts \<Rightarrow> run_task ev t (w\<lparr> ready := ts \<rparr>))"
| "step ev (HeaderDone k resp) w =
     (if k < length (suspended w) then
        (case suspended w ! k of
           (eid, AwaitHeader flistdir noex) \<Rightarrow>
             w\<lparr> suspended := remove_nth k (suspended w),
                ready := ready w @ [ResumeHeader eid flistdir noex resp] \<rparr>
         | (eid, AwaitExtract hash) \<Rightarrow> w)
      else w)"
| "step ev (ExtractDone k resp) w =
     (if k < length (suspended w) then
        (case suspended w ! k of
           (eid, AwaitExtract hash) \<Rightarrow>
             w\<lparr> suspended := remove_nth k (suspended w),
                ready := ready w @ [ResumeExtract eid hash resp] \<rparr>
         | (eid, AwaitHeader flistdir noex) \<Rightarrow> w)
      else w)"
| "step ev (CancelWaiter f) w =
     (if futs w f = Pending then w\<lparr> futs := (futs w)(f := Cancelled) \<rparr> else w)"
| "step ev (WriteFile p c) w = w\<lparr> fsys := write_file p c (fsys w) \<rparr>"

fun exec :: "env \<Rightarrow> action list \<Rightarrow> world \<Rightarrow> world" where
  "exec ev [] w = w"
| "exec ev (a # as) w = exec ev as (step ev a w)"

section \<open>The playlist\<close>

definition dict_get :: "(string \<times> 'v) list \<Rightarrow> string \<Rightarrow> 'v \<Rightarrow> 'v" where
  "dict_get d k dflt = (case map_of d k of None \<Rightarrow> dflt | Some v \<Rightarrow> v)"

definition peek :: "world \<Rightarrow> nat option" where
  "peek w = (case queue w of [] \<Rightarrow> None | e # es \<Rightarrow> Some e)"

text \<open>
  Modelled from the spec: \<open>EventEmitter.emit\<close>, the base class of \<open>Playlist\<close>, is not among
  the source files. The spec has it invoke the handlers registered for the event,
  swallowing their exceptions; the handlers belong to other components and are taken not
  to touch the playlist, so the model records the event.
\<close>

definition emit :: "string \<Rightarrow> nat \<Rightarrow> world \<Rightarrow> world" where
  "emit name eid w = w\<lparr> emitted := emitted w @ [(name, eid)] \<rparr>"

text \<open>\<open>Playlist._add_entry\<close>: append, emit, and request readiness when the entry is the head.\<close>

definition priv_add_entry :: "nat \<Rightarrow> world \<Rightarrow> world" where
  "priv_add_entry eid w =
     (let w1 = emit ''entry-added'' eid (w\<lparr> queue := queue w @ [eid] \<rparr>)
      in if peek w1 = Some eid then fst (get_ready_future eid w1) else w1)"

text \<open>
  The content type \<open>add_entry\<close> works with: \<open>None\<close> when \<open>info['url']\<close> is missing or the
  HEAD probe raises (both inside the \<open>try\<close>), else what the probe returned.
\<close>

definition probed_content_type :: "info \<Rightarrow> error + string option \<Rightarrow> string option" where
  "probed_content_type info header_resp =
     (case map_of info ''url'' of
        None \<Rightarrow> None
      | Some u \<Rightarrow> (case header_resp of Inl x \<Rightarrow> None | Inr v \<Rightarrow> v))"

definition invalid_content_type :: "string \<Rightarrow> bool" where
  "invalid_content_type ct =
     ((startswith ct ''application/'' \<or> startswith ct ''image/'') \<and> \<not> contains ct ''/ogg'')"

definition invalid_content_type_msg :: "string \<Rightarrow> string \<Rightarrow> string" where
  "invalid_content_type_msg ct song_url =
     ''Invalid content type '' @ [CHR 0x22] @ ct @ [CHR 0x22] @ '' for url '' @ song_url"

text \<open>
  \<open>Playlist.add_entry\<close>. The coroutine awaits the downloader (\<open>extract_resp\<close> is what
  \<open>extract_info(download=False)\<close> returned or raised) and, for the generic and Dropbox
  extractors, the HEAD probe (\<open>header_resp\<close>); it touches the playlist only after both, in
  one stretch, which is where \<open>w\<close> is read. It returns the entry and \<open>len(self.entries)\<close>.
\<close>

definition add_entry ::
  "env \<Rightarrow> string \<Rightarrow> string \<Rightarrow> (string \<times> meta_obj) list \<Rightarrow> error + info option
     \<Rightarrow> error + string option \<Rightarrow> world \<Rightarrow> error + (world \<times> nat \<times> nat)" where
  "add_entry ev folder song_url m extract_resp header_resp w =
     (case extract_resp of
        Inl x \<Rightarrow>
          Inl (ExtractionError
                 (''Could not extract information from '' @ song_url
                    @ [CHR 0x0A, CHR 0x0A] @ exc_str x))
      | Inr None \<Rightarrow>
          Inl (ExtractionError (''Cound not extract information from '' @ song_url))
      | Inr (Some info) \<Rightarrow>
          if info = [] then
            Inl (ExtractionError (''Cound not extract information from '' @ song_url))
          else if dict_get info ''_type'' PNone = PStr ''playlist'' then
            Inl (WrongEntryTypeError ''This is a playlist.'' True
                   (py_or (dict_get info ''webpage_url'' PNone) (dict_get info ''url'' PNone)))
          else
            (case map_of info ''extractor'' of
               None \<Rightarrow> Inl (KeyError ''extractor'')
             | Some extractor \<Rightarrow>
                 let content_type =
                       (if extractor = PStr ''generic'' \<or> extractor = PStr ''Dropbox''
                        then probed_content_type info header_resp else None);
                     ct = (case content_type of None \<Rightarrow> [] | Some c \<Rightarrow> c)
                 in if ct \<noteq> [] \<and> invalid_content_type ct
                    then Inl (ExtractionError (invalid_content_type_msg ct song_url))
                    else Inr (let eid = next_entry w;
                                  entry = PlaylistEntry_init folder song_url
                                            (dict_get info ''title'' (PStr ''Untitled''))
                                            (py_or (dict_get info ''duration'' (PInt 0)) (PInt 0))
                                            (Some (prepare_filename ev info)) m;
                                  w1 = priv_add_entry eid
                                         (w\<lparr> heap := (heap w)(eid := entry),
                                             next_entry := Suc eid \<rparr>)
                              in (w1, eid, length (queue w1)))))"

text \<open>
  \<open>Playlist.get_next_entry\<close> up to its \<open>await\<close>: nothing for an empty playlist; otherwise
  the head is removed, the new head's readiness is requested when \<open>predownload_next\<close> is
  set, and the run awaits the removed entry's readiness future. The result is the removed
  entry with the future awaited; the caller receives what that future is resolved with.
\<close>

definition get_next_entry :: "bool \<Rightarrow> world \<Rightarrow> world \<times> (nat \<times> nat) option" where
  "get_next_entry predownload_next w =
     (case queue w of
        [] \<Rightarrow> (w, None)
      | entry # rest \<Rightarrow>
          let w1 = w\<lparr> queue := rest \<rparr>;
              w2 = (if predownload_next
                    then (case peek w1 of
                            None \<Rightarrow> w1
                          | Some nxt \<Rightarrow> fst (get_ready_future nxt w1))
                    else w1);
              r = get_ready_future entry w2
          in (fst r, Some (entry, snd r)))"

text \<open>\<open>Playlist.__init__\<close>: an empty deque, on a loop with nothing scheduled.\<close>

definition Playlist_init :: "filesys \<Rightarrow> world" where
  "Playlist_init fs =
     \<lparr> heap = (\<lambda>i. PlaylistEntry_init [] [] PNone PNone None []), next_entry = 0, queue = [],
       futs = (\<lambda>i. Pending), next_fut = 0, ready = [], suspended = [], fsys = fs,
       emitted = [], ready_requests = [], download_runs = [], download_calls = [] \<rparr>"

text \<open>
  Drivers for sequences of calls: \<open>add_all\<close> makes the calls of \<open>add_entry\<close> in turn and
  gives the entries they return, or the first exception; \<open>pop_all\<close> makes the calls of
  \<open>get_next_entry\<close> in turn and gives their results. Before each call the loop may do
  anything it can do (a list of actions).
\<close>

type_synonym add_call =
  "action list \<times> string \<times> (string \<times> meta_obj) list \<times> (error + info option) \<times> (error + string option)"

fun add_all :: "env \<Rightarrow> string \<Rightarrow> add_call list \<Rightarrow> world \<Rightarrow> error + (world \<times> nat list)" where
  "add_all ev folder [] w = Inr (w, [])"
| "add_all ev folder ((acts, song_url, m, extract_resp, header_resp) # calls) w =
     (case add_entry ev folder song_url m extract_resp header_resp (exec ev acts w) of
        Inl x \<Rightarrow> Inl x
      | Inr (w1, eid, pos) \<Rightarrow>
          (case add_all ev folder calls w1 of
             Inl x \<Rightarrow> Inl x
           | Inr (w2, es) \<Rightarrow> Inr (w2, eid # es)))"


text \<open>The round trip of a snapshot: restore it, then serialise the restored entry.\<close>

definition snapshot_roundtrip ::
  "string \<Rightarrow> (string \<Rightarrow> channel option) \<Rightarrow> snapshot \<Rightarrow> error + snapshot" where
  "snapshot_roundtrip folder get_channel x =
     (case from_json folder get_channel x of Inl err \<Rightarrow> Inl err | Inr e \<Rightarrow> to_json e)"

section \<open>One entry on the loop\<close>



















text \<open>
  The waiters: the waiting lists of all entries, the store of futures and the next free
  future. A step creates a future (done, or waiting on an entry), settles the waiting
  list of one entry with one value, or cancels a future that is not protected. The
  waiters are well formed when every waiting future has been created and no future waits
  on two entries. Two futures have the same outcome when both are pending, or both are
  done with the same value: the entry, or one exception.
\<close>

type_synonym wview = "(nat \<Rightarrow> nat list) \<times> (nat \<Rightarrow> fut) \<times> nat"

definition wview :: "world \<Rightarrow> wview" where
  "wview w = (\<lambda>e. waiting_futures (heap w e), futs w, next_fut w)"

inductive wstep :: "nat set \<Rightarrow> wview \<Rightarrow> wview \<Rightarrow> bool" for P where
  w_stutter: "wstep P s s"
| w_new_done: "wstep P (W, Fu, N) (W, Fu(N := v), Suc N)"
| w_new_wait: "wstep P (W, Fu, N) (W(e := W e @ [N]), Fu(N := Pending), Suc N)"
| w_settle: "v = Result e \<or> v = Exception x \<Longrightarrow>
     wstep P (W, Fu, N) (W(e := []), (\<lambda>f. if f \<in> set (W e) then settle v (Fu f) else Fu f), N)"
| w_cancel: "f \<notin> P \<Longrightarrow> wstep P (W, Fu, N) (W, Fu(f := Cancelled), N)"

definition wf_waiters :: "world \<Rightarrow> bool" where
  "wf_waiters w =
     ((\<forall>e. \<forall>f\<in>set (waiting_futures (heap w e)). f < next_fut w)
      \<and> (\<forall>e e'. e \<noteq> e' \<longrightarrow>
            set (waiting_futures (heap w e)) \<inter> set (waiting_futures (heap w e')) = {}))"

fun wf_v :: "wview \<Rightarrow> bool" where
  "wf_v (W, Fu, N) =
     ((\<forall>e. \<forall>f\<in>set (W e). f < N) \<and> (\<forall>e e'. e \<noteq> e' \<longrightarrow> set (W e) \<inter> set (W e') = {}))"

definition same_outcome :: "world \<Rightarrow> nat \<Rightarrow> nat \<Rightarrow> nat \<Rightarrow> bool" where
  "same_outcome w e f1 f2 =
     ((futs w f1 = Pending \<and> futs w f2 = Pending)
      \<or> (futs w f1 = futs w f2 \<and> (futs w f1 = Result e \<or> (\<exists>x. futs w f1 = Exception x))))"

fun coupled :: "nat \<Rightarrow> nat \<Rightarrow> nat \<Rightarrow> wview \<Rightarrow> bool" where
  "coupled e f1 f2 (W, Fu, N) =
     (f1 < N \<and> f2 < N
      \<and> ((f1 \<in> set (W e) \<and> f2 \<in> set (W e) \<and> Fu f1 = Pending \<and> Fu f2 = Pending)
         \<or> (Fu f1 = Fu f2 \<and> (Fu f1 = Result e \<or> (\<exists>x. Fu f1 = Exception x)))))"

text \<open>Concrete collaborators and inputs, for the instances worked below.\<close>

definition example_env :: env where
  "example_env =
     \<lparr> prepare_filename = (\<lambda>i. case map_of i ''id'' of
                                 Some (PStr n) \<Rightarrow> ''audio_cache/'' @ n
                               | _ \<Rightarrow> ''audio_cache/NA''),
       md5_hexdigest = (\<lambda>c. ''0123456789abcdef01234567'' @ take 8 (c @ ''00000000'')) \<rparr>"

definition example_fs :: filesys where
  "example_fs = \<lparr> dirs = [''audio_cache''], files = [] \<rparr>"

definition youtube_info :: info where
  "youtube_info =
     [(''extractor'', PStr ''youtube''), (''id'', PStr ''youtube-a.m4a''), (''title'', PStr ''a''),
      (''duration'', PInt 10)]"

definition generic_info :: info where
  "generic_info =
     [(''extractor'', PStr ''generic''), (''id'', PStr ''generic-a.mp3''),
      (''url'', PStr ''http://host/a.mp3'')]"

definition playlist_info :: info where
  "playlist_info = [(''_type'', PStr ''playlist''), (''webpage_url'', PStr ''http://host/list'')]"

text \<open>
  The world after \<open>add_entry\<close> on a fresh playlist over \<open>fs\<close>; a download folder holding
  one earlier generic download; a playlist of two generic entries whose downloads get
  the same file name from the template, and a run of the loop in which both downloads are
  in flight at once.
\<close>

definition added_world :: "info \<Rightarrow> string \<Rightarrow> filesys \<Rightarrow> world" where
  "added_world info song_url fs =
     (case add_entry example_env ''audio_cache'' song_url [] (Inr (Some info)) (Inr None)
             (Playlist_init fs) of
        Inr (w, e, pos) \<Rightarrow> w
      | Inl x \<Rightarrow> Playlist_init fs)"

definition cached_fs :: "string \<Rightarrow> filesys" where
  "cached_fs content =
     \<lparr> dirs = [''audio_cache''], files = [(''audio_cache/generic-a-0a1b2c3d.mp3'', content)] \<rparr>"

definition two_generic_entries :: world where
  "two_generic_entries =
     (case add_all example_env ''audio_cache''
             [([], ''http://one/a.mp3'', [], Inr (Some generic_info), Inr None),
              ([], ''http://two/a.mp3'', [], Inr (Some generic_info), Inr None)]
             (Playlist_init example_fs) of
        Inr (w, es) \<Rightarrow> w
      | Inl x \<Rightarrow> Playlist_init example_fs)"

definition colliding_downloads :: "action list" where
  "colliding_downloads =
     [RunNext, Request 1, RunNext,
      WriteFile ''audio_cache/generic-a.mp3'' ''one'',
      ExtractDone 0 (Inr (Some generic_info)),
      ExtractDone 0 (Inr (Some generic_info)),
      RunNext, RunNext]"



section \<open>Restoring a snapshot\<close>

lemma map_of_None_has_key: "(map_of d k = None) = (\<not> has_key k d)"
  by (simp add: has_key_def map_of_eq_None_iff)

text \<open>
  C10. A snapshot whose meta mapping has an \<open>author\<close> record and no \<open>channel\<close> record is
  not restored: \<open>from_json\<close> raises \<open>KeyError('channel')\<close>, since the author is resolved
  through the restored channel. Hence whenever a snapshot with an author is restored to an
  entry, its meta mapping has a channel record too.
\<close>

theorem from_json_author_needs_channel:
  assumes "has_key ''author'' (s_meta data)"
  shows "(\<not> has_key ''channel'' (s_meta data) \<longrightarrow>
            from_json folder get_channel data = Inl (KeyError ''channel''))
         \<and> (from_json folder get_channel data = Inr e \<longrightarrow> has_key ''channel'' (s_meta data))"
proof -
  from assms obtain a where a: "map_of (s_meta data) ''author'' = Some a"
    by (cases "map_of (s_meta data) ''author''") (auto simp: map_of_None_has_key)
  have absent: "from_json folder get_channel data = Inl (KeyError ''channel'')"
    if "\<not> has_key ''channel'' (s_meta data)"
  proof -
    from that have "map_of (s_meta data) ''channel'' = None"
      by (simp add: map_of_None_has_key)
    with a show ?thesis by (simp add: from_json_def)
  qed
  then show ?thesis by (cases "has_key ''channel'' (s_meta data)") simp_all
qed

theorem from_json_author_needs_channel_witness:
  "has_key ''author''
     (s_meta \<lparr> version = 1, s_url = ''u'', s_title = PStr ''t'', s_duration = PInt 3,
              downloaded = False, s_filename = None,
              s_meta = [(''author'', \<lparr> r_type = ''Member'', r_id = ''7'', r_name = ''ann'' \<rparr>)] \<rparr>)
   \<and> from_json ''audio_cache'' (\<lambda>i. None)
        \<lparr> version = 1, s_url = ''u'', s_title = PStr ''t'', s_duration = PInt 3,
          downloaded = False, s_filename = None,
          s_meta = [(''author'', \<lparr> r_type = ''Member'', r_id = ''7'', r_name = ''ann'' \<rparr>)] \<rparr>
       = Inl (KeyError ''channel'')"
  using from_json_author_needs_channel
    [of "\<lparr> version = 1, s_url = ''u'', s_title = PStr ''t'', s_duration = PInt 3,
           downloaded = False, s_filename = None,
           s_meta = [(''author'', \<lparr> r_type = ''Member'', r_id = ''7'', r_name = ''ann'' \<rparr>)] \<rparr>"
        "''audio_cache''" "\<lambda>i. None"]
  by (simp add: has_key_def)

section \<open>The round trip of a snapshot\<close>

lemma snapshot_roundtrip_no_meta:
  "s_meta x = [] \<Longrightarrow>
   snapshot_roundtrip folder get_channel x =
     Inr (x\<lparr> version := 1, downloaded := False, s_filename := None \<rparr>)"
  by (simp add: snapshot_roundtrip_def from_json_def to_json_def PlaylistEntry_init_def
      is_downloaded_def)

text \<open>
  C8. A snapshot with \<open>downloaded = true\<close> does not keep its file name through the round
  trip: \<open>from_json\<close> hands the saved name to the constructor as \<open>expected_filename\<close>, the
  restored entry has no resolved \<open>filename\<close>, and serialising it gives
  \<open>downloaded = false\<close> and no file name.
\<close>

theorem snapshot_roundtrip_loses_filename:
  "from_json ''audio_cache'' (\<lambda>i. None)
     \<lparr> version = 1, s_url = ''http://host/a'', s_title = PStr ''a'', s_duration = PInt 10,
       downloaded = True, s_filename = Some ''audio_cache/youtube-a.m4a'', s_meta = [] \<rparr>
   = Inr (PlaylistEntry_init ''audio_cache'' ''http://host/a'' (PStr ''a'') (PInt 10)
            (Some ''audio_cache/youtube-a.m4a'') [])
   \<and> snapshot_roundtrip ''audio_cache'' (\<lambda>i. None)
       \<lparr> version = 1, s_url = ''http://host/a'', s_title = PStr ''a'', s_duration = PInt 10,
         downloaded = True, s_filename = Some ''audio_cache/youtube-a.m4a'', s_meta = [] \<rparr>
     = Inr \<lparr> version = 1, s_url = ''http://host/a'', s_title = PStr ''a'', s_duration = PInt 10,
             downloaded = False, s_filename = None, s_meta = [] \<rparr>"
  by (simp add: snapshot_roundtrip_def from_json_def to_json_def PlaylistEntry_init_def
      is_downloaded_def)

section \<open>Queue order\<close>














section \<open>What \<open>add_entry\<close> rejects\<close>

text \<open>
  C3. When the resolved metadata is a playlist, \<open>add_entry\<close> raises \<open>WrongEntryTypeError\<close>
  with the flag \<open>True\<close> and the alternate URL (\<open>webpage_url\<close>, else \<open>url\<close>); when the
  resolution raises, or returns \<open>None\<close> or an empty result, it raises \<open>ExtractionError\<close>.
  In each case the call ends with the exception: no entry is made and the playlist is as
  it was.
\<close>

theorem add_entry_rejects_playlist:
  "(info \<noteq> [] \<and> dict_get info ''_type'' PNone = PStr ''playlist'' \<longrightarrow>
      add_entry ev folder song_url m (Inr (Some info)) header_resp w =
        Inl (WrongEntryTypeError ''This is a playlist.'' True
               (py_or (dict_get info ''webpage_url'' PNone) (dict_get info ''url'' PNone))))
   \<and> add_entry ev folder song_url m (Inl x) header_resp w =
        Inl (ExtractionError (''Could not extract information from '' @ song_url
                                @ [CHR 0x0A, CHR 0x0A] @ exc_str x))
   \<and> add_entry ev folder song_url m (Inr None) header_resp w =
        Inl (ExtractionError (''Cound not extract information from '' @ song_url))
   \<and> add_entry ev folder song_url m (Inr (Some [])) header_resp w =
        Inl (ExtractionError (''Cound not extract information from '' @ song_url))"
  by (simp add: add_entry_def)

theorem add_entry_rejects_playlist_witness:
  "playlist_info \<noteq> []
   \<and> dict_get playlist_info ''_type'' PNone = PStr ''playlist''
   \<and> add_entry example_env ''audio_cache'' ''http://host/list'' [] (Inr (Some playlist_info))
        (Inr None) (Playlist_init example_fs)
      = Inl (WrongEntryTypeError ''This is a playlist.'' True (PStr ''http://host/list''))"
  using add_entry_rejects_playlist
    [of playlist_info example_env "''audio_cache''" "''http://host/list''" "[]" "Inr None"
        "Playlist_init example_fs"]
  by (simp add: playlist_info_def dict_get_def py_or_def)

text \<open>
  C4, as the code has it. For a source of the generic extractor whose probe returns a
  content type under \<open>application/\<close> or \<open>image/\<close> with no \<open>/ogg\<close> in it, \<open>add_entry\<close> raises
  \<open>ExtractionError\<close> (the class it raises for a failed resolution too; the module has no
  exception of its own for content types) with a message that names the type. When the
  probe itself raises, the type counts as unknown and the entry is added.
\<close>

theorem add_entry_content_type:
  assumes "info \<noteq> []"
    and "dict_get info ''_type'' PNone \<noteq> PStr ''playlist''"
    and "map_of info ''extractor'' = Some (PStr ''generic'')"
    and "map_of info ''url'' = Some u"
  shows "((startswith ct ''application/'' \<or> startswith ct ''image/'') \<and> \<not> contains ct ''/ogg'' \<longrightarrow>
            add_entry ev folder song_url m (Inr (Some info)) (Inr (Some ct)) w =
              Inl (ExtractionError
                     (''Invalid content type '' @ [CHR 0x22] @ ct @ [CHR 0x22]
                        @ '' for url '' @ song_url)))
       \<and> (\<exists>w1. add_entry ev folder song_url m (Inr (Some info)) (Inl x) w =
                  Inr (w1, next_entry w, Suc (length (queue w)))
                \<and> queue w1 = queue w @ [next_entry w])"
proof -
  have ne: "ct \<noteq> []" if "startswith ct ''application/'' \<or> startswith ct ''image/''"
    using that by (auto simp: startswith_def)
  have a: "add_entry ev folder song_url m (Inr (Some info)) (Inr (Some ct)) w =
              Inl (ExtractionError (invalid_content_type_msg ct song_url))"
    if "(startswith ct ''application/'' \<or> startswith ct ''image/'') \<and> \<not> contains ct ''/ogg''"
    using that assms ne
    by (simp add: add_entry_def probed_content_type_def invalid_content_type_def)
  have b: "\<exists>w1. add_entry ev folder song_url m (Inr (Some info)) (Inl x) w =
                  Inr (w1, next_entry w, Suc (length (queue w)))
                \<and> queue w1 = queue w @ [next_entry w]"
    using assms
    by (simp add: add_entry_def probed_content_type_def Let_def priv_add_entry_def emit_def
        get_ready_future_def)
  from a b show ?thesis by (simp add: invalid_content_type_msg_def)
qed

theorem add_entry_content_type_witness:
  "generic_info \<noteq> []
   \<and> dict_get generic_info ''_type'' PNone \<noteq> PStr ''playlist''
   \<and> map_of generic_info ''extractor'' = Some (PStr ''generic'')
   \<and> map_of generic_info ''url'' = Some (PStr ''http://host/a.mp3'')
   \<and> startswith ''image/png'' ''image/'' \<and> \<not> contains ''image/png'' ''/ogg''
   \<and> add_entry example_env ''audio_cache'' ''http://host/a.mp3'' [] (Inr (Some generic_info))
        (Inr (Some ''image/png'')) (Playlist_init example_fs)
      = Inl (ExtractionError
               (''Invalid content type '' @ [CHR 0x22] @ ''image/png'' @ [CHR 0x22]
                  @ '' for url http://host/a.mp3''))
   \<and> (\<exists>w1. add_entry example_env ''audio_cache'' ''http://host/a.mp3'' []
               (Inr (Some generic_info)) (Inl (ClientError ''timeout''))
               (Playlist_init example_fs) = Inr (w1, 0, 1)
            \<and> queue w1 = [0])"
  using add_entry_content_type
    [of generic_info "PStr ''http://host/a.mp3''" "''image/png''" example_env "''audio_cache''"
        "''http://host/a.mp3''" "[]" "Playlist_init example_fs" "ClientError ''timeout''"]
  by (simp add: generic_info_def dict_get_def startswith_def Playlist_init_def)

text \<open>
  C4 as stated names a \<open>ContentTypeRejected\<close> error. The exception raised for the type
  \<open>application/json\<close> is an \<open>ExtractionError\<close>.
\<close>

theorem add_entry_content_type_counterexample:
  "add_entry example_env ''audio_cache'' ''http://host/a.mp3'' [] (Inr (Some generic_info))
     (Inr (Some ''application/json'')) (Playlist_init example_fs)
   = Inl (ExtractionError
            (''Invalid content type '' @ [CHR 0x22] @ ''application/json'' @ [CHR 0x22]
               @ '' for url http://host/a.mp3''))"
  by (simp add: add_entry_def generic_info_def dict_get_def probed_content_type_def
      invalid_content_type_def startswith_def invalid_content_type_msg_def)

section \<open>Prefetch of the head\<close>

text \<open>
  C9. \<open>_add_entry\<close> on an empty playlist makes the new entry the head and requests its
  readiness at once (for an entry that is not downloaded: a download task is scheduled
  and a waiter registered). \<open>get_next_entry\<close> with \<open>predownload_next\<close> set, on a playlist
  with a second entry, requests the readiness of the new head before that of the entry
  it removed, and keeps no handle on it.
\<close>

theorem head_is_prefetched:
  "(queue w = [] \<longrightarrow>
      queue (priv_add_entry eid w) = [eid]
      \<and> ready_requests (priv_add_entry eid w) = ready_requests w @ [eid]
      \<and> (\<not> is_downloaded (heap w eid) \<longrightarrow>
            ready (priv_add_entry eid w) = ready w @ [Fresh eid]
            \<and> waiting_futures (heap (priv_add_entry eid w) eid)
                = waiting_futures (heap w eid) @ [next_fut w]))
   \<and> (queue w = e # n # rest \<longrightarrow>
        queue (fst (get_next_entry True w)) = n # rest
        \<and> ready_requests (fst (get_next_entry True w)) = ready_requests w @ [n, e]
        \<and> (\<not> is_downloaded (heap w n) \<longrightarrow>
              Fresh n \<in> set (ready (fst (get_next_entry True w)))
              \<and> next_fut w \<in> set (waiting_futures (heap (fst (get_next_entry True w)) n))))"
  by (auto simp: priv_add_entry_def emit_def peek_def get_ready_future_def Let_def
      get_next_entry_def is_downloaded_def split: option.splits)

theorem head_is_prefetched_witness:
  "queue (Playlist_init example_fs) = []
   \<and> \<not> is_downloaded (heap (Playlist_init example_fs) 0)
   \<and> ready_requests (priv_add_entry 0 (Playlist_init example_fs)) = [0]
   \<and> ready (priv_add_entry 0 (Playlist_init example_fs)) = [Fresh 0]
   \<and> queue ((Playlist_init example_fs)\<lparr> queue := [0, 1] \<rparr>) = 0 # 1 # []
   \<and> \<not> is_downloaded (heap ((Playlist_init example_fs)\<lparr> queue := [0, 1] \<rparr>) 1)
   \<and> ready_requests (fst (get_next_entry True ((Playlist_init example_fs)\<lparr> queue := [0, 1] \<rparr>)))
       = [1, 0]
   \<and> Fresh 1 \<in> set (ready (fst (get_next_entry True
                                   ((Playlist_init example_fs)\<lparr> queue := [0, 1] \<rparr>))))"
  using head_is_prefetched[of "Playlist_init example_fs" 0 0 1 "[]"]
    head_is_prefetched[of "(Playlist_init example_fs)\<lparr> queue := [0, 1] \<rparr>" 0 0 1 "[]"]
  by (simp add: Playlist_init_def is_downloaded_def PlaylistEntry_init_def)

section \<open>Strings and files\<close>









lemmas eval_defs = added_world_def add_entry_def Playlist_init_def generic_info_def youtube_info_def
  example_env_def example_fs_def cached_fs_def
        dict_get_def priv_add_entry_def emit_def peek_def get_ready_future_def Let_def
        is_downloaded_def PlaylistEntry_init_def py_or_def run_task_def download_begin_def
        os_path_exists_def os_makedirs_def has_key_def os_path_basename_def os_listdir_def
        List.map_filter_def py_rsplit1_def finish_def probed_content_type_def
  child_name_def startswith_def download_after_header_def remote_size_def os_path_join_def
  os_path_getsize_def for_each_future_def settle_def remove_nth_def really_download_def
  md5sum_def os_path_isfile_def os_unlink_def os_rename_def write_file_def

section \<open>The cache path of generic sources\<close>








section \<open>Hash disambiguation\<close>



section \<open>A failed download\<close>

lemma fold_settle:
  "fold (\<lambda>f fs. fs(f := settle v (fs f))) xs Fu =
     (\<lambda>f. if f \<in> set xs then settle v (Fu f) else Fu f)"
proof (induction xs arbitrary: Fu)
  case Nil
  then show ?case by simp
next
  case (Cons x xs)
  have "fold (\<lambda>f fs. fs(f := settle v (fs f))) (x # xs) Fu =
          fold (\<lambda>f fs. fs(f := settle v (fs f))) xs (Fu(x := settle v (Fu x)))"
    by simp
  also have "\<dots> = (\<lambda>f. if f \<in> set xs then settle v ((Fu(x := settle v (Fu x))) f)
                      else (Fu(x := settle v (Fu x))) f)"
    by (rule Cons.IH)
  also have "\<dots> = (\<lambda>f. if f \<in> set (x # xs) then settle v (Fu f) else Fu f)"
    by (auto simp: fun_eq_iff settle_def)
  finally show ?case .
qed


text \<open>
  When a run ends with an exception, every pending waiter of the entry gets that
  exception, the waiting list is emptied and the flag is cleared. An exception raised
  before \<open>_really_download\<close> has the downloader's result leaves the entry as it was.
\<close>

lemma failed_run_settles_waiters:
  assumes "waiting_futures e' = waiting_futures (heap w eid)"
  shows "\<not> is_downloading (heap (finish eid (Raise x, e', fs') w) eid)
       \<and> waiting_futures (heap (finish eid (Raise x, e', fs') w) eid) = []
       \<and> filename (heap (finish eid (Raise x, e', fs') w) eid) = filename e'
       \<and> (\<forall>f\<in>set (waiting_futures (heap w eid)).
             futs w f = Pending \<longrightarrow> futs (finish eid (Raise x, e', fs') w) f = Exception x)"
proof -
  have s: "settle (Exception x) Pending = Exception x" by (simp add: settle_def)
  show ?thesis
    using assms by (simp add: finish_def Let_def for_each_future_def fold_settle s)
qed

lemma early_failure_keeps_entry:
  "download_begin e fs = (Raise x, e', fs') \<Longrightarrow> e' = e"
  "download_after_header fl n r e fs = (Raise x, e', fs') \<Longrightarrow> e' = e"
  "really_download ev h (Inl y) e fs = (Raise (ExtractionError (exc_str y)), e, fs)"
  "really_download ev h (Inr None) e fs =
     (Raise (ExtractionError ''ytdl broke and hell if I know why''), e, fs)"
  by (auto simp: download_begin_def download_after_header_def really_download_def Let_def
      split: option.splits sum.splits list.splits if_splits)

text \<open>
  C5. Two generic entries whose downloads share the unhashed file name are in flight at
  once. The first run to resume moves the file to its hashed name; the second finds no
  file to hash and fails. Its waiter gets the exception and the flag is cleared, but
  \<open>_really_download\<close> had already assigned \<open>self.filename\<close>: the entry counts as
  downloaded, under a name at which there is no file, and the next readiness request is
  answered at once with the entry and starts no download.
\<close>

theorem failed_download_counts_as_downloaded:
  "futs (exec example_env colliding_downloads two_generic_entries) 1 = Exception (OSError ''open'')
   \<and> \<not> is_downloading (heap (exec example_env colliding_downloads two_generic_entries) 1)
   \<and> filename (heap (exec example_env colliding_downloads two_generic_entries) 1)
       = Some ''audio_cache/generic-a.mp3''
   \<and> \<not> os_path_isfile (fsys (exec example_env colliding_downloads two_generic_entries))
         ''audio_cache/generic-a.mp3''
   \<and> is_downloaded (heap (exec example_env colliding_downloads two_generic_entries) 1)
   \<and> futs (exec example_env (colliding_downloads @ [Request 1]) two_generic_entries) 2 = Result 1
   \<and> ready (exec example_env (colliding_downloads @ [Request 1]) two_generic_entries) = []
   \<and> download_calls (exec example_env (colliding_downloads @ [Request 1]) two_generic_entries)
       = [0, 1]"
  by (simp add: two_generic_entries_def colliding_downloads_def eval_defs)

section \<open>Requests that share a download\<close>

lemma download_begin_frame:
  "download_begin e fs = (oc, e', fs') \<Longrightarrow> e' = e\<lparr> filename := filename e' \<rparr>"
  by (auto simp: download_begin_def Let_def split: option.splits sum.splits list.splits if_splits)

lemma download_after_header_frame:
  "download_after_header fl n r e fs = (oc, e', fs') \<Longrightarrow>
     e' = e\<lparr> filename := filename e' \<rparr> \<and> (oc = Return \<or> (\<exists>x. oc = Raise x) \<or> oc = Await (AwaitExtract True))"
  by (auto simp: download_after_header_def Let_def split: option.splits sum.splits list.splits if_splits)

lemma really_download_frame:
  "really_download ev h r e fs = (oc, e', fs') \<Longrightarrow>
     e' = e\<lparr> filename := filename e' \<rparr> \<and> (oc = Return \<or> (\<exists>x. oc = Raise x))"
  by (auto simp: really_download_def Let_def split: option.splits sum.splits list.splits if_splits)



























lemma wview_finish:
  assumes "waiting_futures e' = waiting_futures (heap w eid)"
  shows "wstep P (wview w) (wview (finish eid (oc, e', fs') w))"
proof (cases oc)
  case Return
  let ?w1 = "w\<lparr> heap := (heap w)(eid := e'), fsys := fs' \<rparr>"
  have a: "wview ?w1 = wview w" using assms by (auto simp: wview_def fun_eq_iff)
  have "wview (finish eid (oc, e', fs') w) =
          ((\<lambda>i. waiting_futures (heap w i))(eid := []),
           (\<lambda>f. if f \<in> set (waiting_futures (heap w eid)) then settle (Result eid) (futs w f)
                 else futs w f), next_fut w)"
    using Return assms
    by (auto simp: finish_def Let_def wview_def for_each_future_def fold_settle fun_eq_iff)
  then show ?thesis unfolding wview_def[of w]
    using wstep.w_settle[of "Result eid" eid undefined P "\<lambda>i. waiting_futures (heap w i)" "futs w" "next_fut w"]
    by simp
next
  case (Raise x)
  have "wview (finish eid (oc, e', fs') w) =
          ((\<lambda>i. waiting_futures (heap w i))(eid := []),
           (\<lambda>f. if f \<in> set (waiting_futures (heap w eid)) then settle (Exception x) (futs w f)
                 else futs w f), next_fut w)"
    using Raise assms
    by (auto simp: finish_def Let_def wview_def for_each_future_def fold_settle fun_eq_iff)
  then show ?thesis unfolding wview_def[of w]
    using wstep.w_settle[of "Exception x" eid x P "\<lambda>i. waiting_futures (heap w i)" "futs w" "next_fut w"]
    by simp
next
  case (Await p)
  have "wview (finish eid (oc, e', fs') w) = wview w"
    using Await assms by (auto simp: finish_def Let_def wview_def fun_eq_iff split: point.splits)
  then show ?thesis by (simp add: wstep.w_stutter)
qed

lemma frame_waiting: "e' = e\<lparr> filename := x \<rparr> \<Longrightarrow> waiting_futures e' = waiting_futures e"
  by simp

lemma wview_run_task: "wstep P (wview w) (wview (run_task ev t w))"
proof (cases t)
  case (Fresh eid)
  show ?thesis
  proof (cases "is_downloading (heap w eid)")
    case True
    with Fresh show ?thesis by (simp add: run_task_def wstep.w_stutter)
  next
    case False
    let ?w = "w\<lparr> download_runs := download_runs w @ [eid] \<rparr>"
    obtain oc e' fs' where b:
      "download_begin ((heap w eid)\<lparr> is_downloading := True \<rparr>) (fsys w) = (oc, e', fs')"
      by (metis prod_cases3)
    from frame_waiting[OF download_begin_frame[OF b]]
    have "waiting_futures e' = waiting_futures (heap ?w eid)" by simp
    from wview_finish[OF this, of P oc fs'] have "wstep P (wview ?w) (wview (finish eid (oc, e', fs') ?w))" .
    moreover have "wview ?w = wview w" by (simp add: wview_def)
    ultimately show ?thesis using Fresh False b by (simp add: run_task_def)
  qed
next
  case (ResumeHeader eid fl n r)
  obtain oc e' fs' where b: "download_after_header fl n r (heap w eid) (fsys w) = (oc, e', fs')"
    by (metis prod_cases3)
  from download_after_header_frame[OF b] have "e' = (heap w eid)\<lparr> filename := filename e' \<rparr>" by simp
  from frame_waiting[OF this] have "waiting_futures e' = waiting_futures (heap w eid)" .
  from wview_finish[OF this, of P oc fs'] show ?thesis using ResumeHeader b by (simp add: run_task_def)
next
  case (ResumeExtract eid h r)
  obtain oc e' fs' where b: "really_download ev h r (heap w eid) (fsys w) = (oc, e', fs')"
    by (metis prod_cases3)
  from really_download_frame[OF b] have "e' = (heap w eid)\<lparr> filename := filename e' \<rparr>" by simp
  from frame_waiting[OF this] have "waiting_futures e' = waiting_futures (heap w eid)" .
  from wview_finish[OF this, of P oc fs'] show ?thesis using ResumeExtract b by (simp add: run_task_def)
qed

lemma wview_get_ready_future: "wstep P (wview w) (wview (fst (get_ready_future e w)))"
proof (cases "is_downloaded (heap w e)")
  case True
  then have "wview (fst (get_ready_future e w)) =
      (\<lambda>i. waiting_futures (heap w i), (futs w)(next_fut w := Result e), Suc (next_fut w))"
    by (simp add: get_ready_future_def Let_def wview_def)
  then show ?thesis unfolding wview_def[of w] by (simp add: wstep.w_new_done)
next
  case False
  then have "wview (fst (get_ready_future e w)) =
      ((\<lambda>i. waiting_futures (heap w i))(e := waiting_futures (heap w e) @ [next_fut w]),
       (futs w)(next_fut w := Pending), Suc (next_fut w))"
    by (auto simp: get_ready_future_def Let_def wview_def fun_eq_iff)
  then show ?thesis unfolding wview_def[of w]
    using wstep.w_new_wait[of P "\<lambda>i. waiting_futures (heap w i)" "futs w" "next_fut w" e] by simp
qed

lemma wview_step:
  assumes "\<forall>f\<in>P. a \<noteq> CancelWaiter f"
  shows "wstep P (wview w) (wview (step ev a w))"
proof (cases a)
  case (Request e)
  then show ?thesis by (simp add: wview_get_ready_future)
next
  case RunNext
  show ?thesis
  proof (cases "ready w")
    case Nil
    with RunNext show ?thesis by (simp add: wstep.w_stutter)
  next
    case (Cons t ts)
    have "wview (w\<lparr> ready := ts \<rparr>) = wview w" by (simp add: wview_def)
    with wview_run_task[of P "w\<lparr> ready := ts \<rparr>" ev t] RunNext Cons show ?thesis by simp
  qed
next
  case (HeaderDone k r)
  then show ?thesis
    by (auto simp: wview_def wstep.w_stutter split: prod.splits point.splits)
next
  case (ExtractDone k r)
  then show ?thesis
    by (auto simp: wview_def wstep.w_stutter split: prod.splits point.splits)
next
  case (CancelWaiter f)
  with assms have "f \<notin> P" by auto
  from wstep.w_cancel[OF this, of "\<lambda>i. waiting_futures (heap w i)" "futs w" "next_fut w"]
  show ?thesis using CancelWaiter by (simp add: wview_def wstep.w_stutter)
next
  case (WriteFile p c)
  then show ?thesis by (simp add: wview_def wstep.w_stutter)
qed

lemma wf_waiters_view: "wf_waiters w = wf_v (wview w)"
  by (simp add: wf_waiters_def wview_def)

lemma wf_v_step:
  assumes "wstep P s s'" and "wf_v s"
  shows "wf_v s'"
  using assms
proof (cases rule: wstep.cases)
  case w_stutter
  with assms show ?thesis by simp
next
  case (w_new_done W Fu N v)
  with assms(2) show ?thesis by (auto intro: less_SucI)
next
  case (w_new_wait W Fu N e)
  with assms(2) have b: "\<forall>e. \<forall>f\<in>set (W e). f < N"
    and d: "\<forall>e e'. e \<noteq> e' \<longrightarrow> set (W e) \<inter> set (W e') = {}" by auto
  have b': "\<forall>i. \<forall>f\<in>set ((W(e := W e @ [N])) i). f < Suc N"
    using b by (auto intro: less_SucI)
  have d': "\<forall>i j. i \<noteq> j \<longrightarrow> set ((W(e := W e @ [N])) i) \<inter> set ((W(e := W e @ [N])) j) = {}"
  proof (intro allI impI)
    fix i j :: nat
    assume ij: "i \<noteq> j"
    from b have ni: "N \<notin> set (W i)" and nj: "N \<notin> set (W j)" by auto
    from d ij have "set (W i) \<inter> set (W j) = {}" by simp
    with ni nj ij show "set ((W(e := W e @ [N])) i) \<inter> set ((W(e := W e @ [N])) j) = {}"
      by auto
  qed
  from w_new_wait b' d' show ?thesis by simp
next
  case (w_settle v e x W Fu N)
  with assms(2) have b: "\<forall>e. \<forall>f\<in>set (W e). f < N"
    and d: "\<forall>e e'. e \<noteq> e' \<longrightarrow> set (W e) \<inter> set (W e') = {}" by auto
  have b': "\<forall>i. \<forall>f\<in>set ((W(e := [])) i). f < N" using b by auto
  have d': "\<forall>i j. i \<noteq> j \<longrightarrow> set ((W(e := [])) i) \<inter> set ((W(e := [])) j) = {}"
  proof (intro allI impI)
    fix i j :: nat
    assume "i \<noteq> j"
    with d have "set (W i) \<inter> set (W j) = {}" by simp
    then show "set ((W(e := [])) i) \<inter> set ((W(e := [])) j) = {}" by simp
  qed
  from w_settle b' d' show ?thesis by simp
next
  case (w_cancel f W Fu N)
  with assms(2) show ?thesis by simp
qed

lemma coupled_step:
  assumes "wstep {f1, f2} s s'" and "wf_v s" and "coupled e f1 f2 s"
  shows "coupled e f1 f2 s'"
  using assms(1)
proof (cases rule: wstep.cases)
  case w_stutter
  with assms show ?thesis by simp
next
  case (w_new_done W Fu N v)
  with assms(3) show ?thesis by (auto intro: less_SucI)
next
  case (w_new_wait W Fu N e0)
  with assms(3) show ?thesis by (auto intro: less_SucI)
next
  case (w_settle v e0 x W Fu N)
  with assms(2) have d: "\<forall>e e'. e \<noteq> e' \<longrightarrow> set (W e) \<inter> set (W e') = {}" by auto
  from w_settle assms(3) have n: "f1 < N" "f2 < N" by auto
  from w_settle assms(3) have c:
    "(f1 \<in> set (W e) \<and> f2 \<in> set (W e) \<and> Fu f1 = Pending \<and> Fu f2 = Pending)
     \<or> (Fu f1 = Fu f2 \<and> (Fu f1 = Result e \<or> (\<exists>x. Fu f1 = Exception x)))"
    by simp
  from w_settle(3) have v: "v \<noteq> Pending" "v = Result e0 \<or> (\<exists>x. v = Exception x)" by auto
  define Fu' where "Fu' = (\<lambda>f. if f \<in> set (W e0) then settle v (Fu f) else Fu f)"
  define W' where "W' = W(e0 := [])"
  have goal: "(f1 \<in> set (W' e) \<and> f2 \<in> set (W' e) \<and> Fu' f1 = Pending \<and> Fu' f2 = Pending)
     \<or> (Fu' f1 = Fu' f2 \<and> (Fu' f1 = Result e \<or> (\<exists>x. Fu' f1 = Exception x)))"
    using c
  proof
    assume w: "f1 \<in> set (W e) \<and> f2 \<in> set (W e) \<and> Fu f1 = Pending \<and> Fu f2 = Pending"
    show ?thesis
    proof (cases "e0 = e")
      case True
      with w v have "Fu' f1 = v" "Fu' f2 = v" by (simp_all add: settle_def Fu'_def)
      with v True show ?thesis by auto
    next
      case False
      with d w have "f1 \<notin> set (W e0)" "f2 \<notin> set (W e0)" by auto
      with w False show ?thesis by (simp add: Fu'_def W'_def)
    qed
  next
    assume s: "Fu f1 = Fu f2 \<and> (Fu f1 = Result e \<or> (\<exists>x. Fu f1 = Exception x))"
    then have "Fu f1 \<noteq> Pending" "Fu f2 \<noteq> Pending" by auto
    then have "Fu' f1 = Fu f1" "Fu' f2 = Fu f2" by (simp_all add: settle_def Fu'_def)
    with s have "Fu' f1 = Fu' f2 \<and> (Fu' f1 = Result e \<or> (\<exists>x. Fu' f1 = Exception x))"
      by metis
    then show ?thesis by (rule disjI2)
  qed
  have "s' = (W', Fu', N)" using w_settle(2) by (simp add: Fu'_def W'_def)
  with n goal show ?thesis by simp
next
  case (w_cancel f W Fu N)
  with assms(3) show ?thesis by auto
qed

lemma coupled_exec:
  "wf_waiters w \<Longrightarrow> coupled e f1 f2 (wview w) \<Longrightarrow>
   CancelWaiter f1 \<notin> set as \<Longrightarrow> CancelWaiter f2 \<notin> set as \<Longrightarrow>
   wf_waiters (exec ev as w) \<and> coupled e f1 f2 (wview (exec ev as w))"
proof (induction as arbitrary: w)
  case Nil
  then show ?case by simp
next
  case (Cons a as)
  from Cons.prems have "\<forall>f\<in>{f1, f2}. a \<noteq> CancelWaiter f" by auto
  from wview_step[OF this, of w ev] have s: "wstep {f1, f2} (wview w) (wview (step ev a w))" .
  from Cons.prems(1) have wf: "wf_v (wview w)" by (simp add: wf_waiters_view)
  from wf_v_step[OF s wf] have wf': "wf_waiters (step ev a w)" by (simp add: wf_waiters_view)
  from coupled_step[OF s wf Cons.prems(2)] have c': "coupled e f1 f2 (wview (step ev a w))" .
  from Cons.IH[OF wf' c'] Cons.prems show ?case by simp
qed

lemma coupled_same_outcome: "coupled e f1 f2 (wview w) \<Longrightarrow> same_outcome w e f1 f2"
  by (auto simp: wview_def same_outcome_def)








section \<open>What a caller of \<open>get_next_entry\<close> receives\<close>

text \<open>
  The future \<open>get_next_entry\<close> awaits belongs to the entry it removed: it is done with that
  entry, or it is pending among the entry's waiters. A pending waiter that is not
  cancelled stays pending or is resolved with its own entry or with an exception,
  whatever the loop does.
\<close>

lemma get_next_entry_future:
  assumes "queue w = e # rest"
  shows "\<exists>f. snd (get_next_entry b w) = Some (e, f)
           \<and> (futs (fst (get_next_entry b w)) f = Result e
              \<or> (futs (fst (get_next_entry b w)) f = Pending
                 \<and> f \<in> set (waiting_futures (heap (fst (get_next_entry b w)) e))))"
  using assms
  by (auto simp: get_next_entry_def Let_def get_ready_future_def peek_def split: list.splits)

lemma waiter_outcome:
  assumes "wf_waiters w" and "f \<in> set (waiting_futures (heap w e))" and "futs w f = Pending"
    and "CancelWaiter f \<notin> set as"
  shows "same_outcome (exec ev as w) e f f"
proof -
  from assms(1,2) have "f < next_fut w" by (simp add: wf_waiters_def)
  with assms(2,3) have "coupled e f f (wview w)" by (simp add: wview_def)
  from coupled_exec[OF assms(1) this assms(4) assms(4), of ev] show ?thesis
    by (simp add: coupled_same_outcome)
qed

end
